theory Spec2Isabelle
  imports Main
begin

section \<open>The Stripe webhook route of Better SaaS\<close>

text \<open>
  The development embeds the webhook route
  \<^verbatim>\<open>src/app/api/webhooks/stripe/route.ts\<close> as it is listed in
  \<^verbatim>\<open>content/docs/en/features/payment-billing.mdx\<close>, together with the three tables of
  \<^verbatim>\<open>src/server/db/schema.ts\<close> from the same document.

  The route is asynchronous TypeScript over three collaborators: the Stripe SDK
  (\<^verbatim>\<open>stripe.webhooks.constructEvent\<close>), the Drizzle query builder over PostgreSQL
  (\<^verbatim>\<open>db.update\<close>, \<^verbatim>\<open>db.insert ... onConflictDoUpdate\<close>) and the console. The
  embedding passes the database explicitly, returns the console output as a list of lines,
  turns every exception into the left summand of a sum type, and takes what the route reads
  from its environment (the SDK's verdict, the clocks, the random UUID, a fault of the
  database connection) as a record of inputs.
\<close>

subsection \<open>Schema\<close>

text \<open>
  A \<^verbatim>\<open>timestamp(..., { mode: "date" })\<close> column holds a JavaScript \<^verbatim>\<open>Date\<close>: its time
  value, the milliseconds since the epoch. A column without \<^verbatim>\<open>.notNull()\<close> is an option.
  The field names common to several tables carry the table's prefix.
\<close>

type_synonym timestamp = int

record subscription_row =
  sub_id :: string
  sub_userId :: string
  stripeSubscriptionId :: "string option"
  stripeCustomerId :: "string option"
  stripePriceId :: "string option"
  sub_status :: string
  planId :: string
  currentPeriodStart :: "timestamp option"
  currentPeriodEnd :: "timestamp option"
  cancelAtPeriodEnd :: "bool option"
  sub_createdAt :: timestamp
  updatedAt :: timestamp

record invoice_row =
  inv_id :: string
  inv_userId :: string
  subscriptionId :: "string option"
  stripeInvoiceId :: "string option"
  amount :: int
  currency :: string
  inv_status :: string
  hostedInvoiceUrl :: "string option"
  invoicePdf :: "string option"
  inv_createdAt :: timestamp

record payment_method_row =
  pm_id :: string
  pm_userId :: string
  stripePaymentMethodId :: string
  pm_type :: string
  brand :: "string option"
  last4 :: "string option"
  expiryMonth :: "int option"
  expiryYear :: "int option"
  isDefault :: "bool option"
  pm_createdAt :: timestamp

text \<open>
  The database: the three tables, and the primary keys of the \<^verbatim>\<open>users\<close> table that
  \<^verbatim>\<open>userId\<close> references.
\<close>

record db =
  users :: "string list"
  subscriptions :: "subscription_row list"
  invoices :: "invoice_row list"
  paymentMethods :: "payment_method_row list"

subsection \<open>Events, errors, console and responses\<close>

text \<open>
  \<^verbatim>\<open>event.data.object\<close> is typed \<^verbatim>\<open>any\<close>. The record below holds the properties that
  the handlers read from it, each with the type the column it is written to expects
  (amounts and epoch seconds are integers; the two URLs may be \<^verbatim>\<open>null\<close>).
\<close>

record stripe_object =
  obj_id :: string
  obj_status :: string
  current_period_start :: int
  current_period_end :: int
  cancel_at_period_end :: bool
  customer :: string
  amount_paid :: int
  obj_currency :: string
  hosted_invoice_url :: "string option"
  invoice_pdf :: "string option"

record event =
  event_type :: string
  data_object :: stripe_object

datatype error =
    Stripe_error string
  | RangeError string
  | Database_fault string
  | Numeric_value_out_of_range string
  | Unique_violation string
  | Foreign_key_violation string

datatype console_arg = Str string | Err error

datatype console_line = Console_log "console_arg list" | Console_error "console_arg list"

datatype json = Received bool | Error_object string

record response =
  status :: nat
  json_body :: json

record request =
  body :: string
  stripe_signature :: "string option"

text \<open>
  What one request reads from outside: the SDK's \<^verbatim>\<open>constructEvent\<close> (it throws, or
  returns the decoded event), the signing secret (an environment variable, which may be
  unset, as the request's signature header may be absent), the application clock (\<^verbatim>\<open>new Date()\<close>),
  the database clock (\<^verbatim>\<open>defaultNow()\<close>), the value of \<^verbatim>\<open>crypto.randomUUID()\<close>, and the
  fault, if any, with which the database connection rejects the request's statement.
\<close>

record env =
  constructEvent :: "string \<Rightarrow> string option \<Rightarrow> string option \<Rightarrow> error + event"
  STRIPE_WEBHOOK_SECRET :: "string option"
  now :: timestamp
  defaultNow :: timestamp
  randomUUID :: string
  db_fault :: "string option"

record outcome =
  res :: response
  store :: db
  console :: "console_line list"

subsection \<open>Query primitives\<close>

text \<open>
  \<^verbatim>\<open>new Date(ms)\<close>: a time value beyond \<open>8.64e15\<close> milliseconds on either side of the
  epoch gives an invalid date, which the timestamp column refuses to serialise
  (\<^verbatim>\<open>toISOString\<close> throws a \<^verbatim>\<open>RangeError\<close>).
\<close>

definition new_Date :: "int \<Rightarrow> timestamp option" where
  "new_Date ms = (if - 8640000000000000 \<le> ms \<and> ms \<le> 8640000000000000 then Some ms else None)"

text \<open>\<^verbatim>\<open>integer("amount")\<close> is a 32-bit signed column.\<close>

definition int4 :: "int \<Rightarrow> bool" where
  "int4 n \<longleftrightarrow> - 2147483648 \<le> n \<and> n \<le> 2147483647"

text \<open>\<^verbatim>\<open>db.update(t).set(f).where(p)\<close>: every row that satisfies \<open>p\<close> is rewritten by \<open>f\<close>.\<close>

definition update_where :: "('r \<Rightarrow> bool) \<Rightarrow> ('r \<Rightarrow> 'r) \<Rightarrow> 'r list \<Rightarrow> 'r list" where
  "update_where p f rows = map (\<lambda>r. if p r then f r else r) rows"

subsection \<open>The handlers\<close>

text \<open>
  \<^verbatim>\<open>
  async function handleSubscriptionUpdate(subscription: any) {
    await db
      .update(subscriptions)
      .set({
        status: subscription.status,
        currentPeriodStart: new Date(subscription.current_period_start * 1000),
        currentPeriodEnd: new Date(subscription.current_period_end * 1000),
        cancelAtPeriodEnd: subscription.cancel_at_period_end,
        updatedAt: new Date(),
      })
      .where(eq(subscriptions.stripeSubscriptionId, subscription.id))
  }
  \<close>
\<close>

definition handleSubscriptionUpdate :: "env \<Rightarrow> db \<Rightarrow> stripe_object \<Rightarrow> error + db \<times> console_line list" where
  "handleSubscriptionUpdate e d subscription =
     (case new_Date (current_period_start subscription * 1000) of
        None \<Rightarrow> Inl (RangeError ''Invalid time value'')
      | Some period_start \<Rightarrow>
     (case new_Date (current_period_end subscription * 1000) of
        None \<Rightarrow> Inl (RangeError ''Invalid time value'')
      | Some period_end \<Rightarrow>
     (case db_fault e of
        Some msg \<Rightarrow> Inl (Database_fault msg)
      | None \<Rightarrow>
          Inr (d\<lparr>subscriptions :=
                 update_where (\<lambda>r. stripeSubscriptionId r = Some (obj_id subscription))
                   (\<lambda>r. r\<lparr>sub_status := obj_status subscription,
                          currentPeriodStart := Some period_start,
                          currentPeriodEnd := Some period_end,
                          cancelAtPeriodEnd := Some (cancel_at_period_end subscription),
                          updatedAt := now e\<rparr>)
                   (subscriptions d)\<rparr>, []))))"

text \<open>
  \<^verbatim>\<open>
  async function handleSubscriptionDeleted(subscription: any) {
    await db
      .update(subscriptions)
      .set({
        status: 'canceled',
        updatedAt: new Date(),
      })
      .where(eq(subscriptions.stripeSubscriptionId, subscription.id))
  }
  \<close>
\<close>

definition handleSubscriptionDeleted :: "env \<Rightarrow> db \<Rightarrow> stripe_object \<Rightarrow> error + db \<times> console_line list" where
  "handleSubscriptionDeleted e d subscription =
     (case db_fault e of
        Some msg \<Rightarrow> Inl (Database_fault msg)
      | None \<Rightarrow>
          Inr (d\<lparr>subscriptions :=
                 update_where (\<lambda>r. stripeSubscriptionId r = Some (obj_id subscription))
                   (\<lambda>r. r\<lparr>sub_status := ''canceled'', updatedAt := now e\<rparr>)
                   (subscriptions d)\<rparr>, []))"

text \<open>
  \<^verbatim>\<open>
  async function handleInvoicePaymentSucceeded(invoice: any) {
    // Update or create invoice record
    await db
      .insert(invoices)
      .values({
        id: crypto.randomUUID(),
        userId: invoice.customer, // This should be mapped to your user ID
        stripeInvoiceId: invoice.id,
        amount: invoice.amount_paid,
        currency: invoice.currency,
        status: 'paid',
        hostedInvoiceUrl: invoice.hosted_invoice_url,
        invoicePdf: invoice.invoice_pdf,
      })
      .onConflictDoUpdate({
        target: invoices.stripeInvoiceId,
        set: {
          status: 'paid',
          hostedInvoiceUrl: invoice.hosted_invoice_url,
          invoicePdf: invoice.invoice_pdf,
        },
      })
  }
  \<close>
  The statement is one \<^verbatim>\<open>INSERT ... ON CONFLICT ("stripeInvoiceId") DO UPDATE SET ...\<close>.
  The amount is bound to a 32-bit column whichever way the statement goes. A row with the
  same \<^verbatim>\<open>stripeInvoiceId\<close> sends it down the update; otherwise the proposed row is inserted,
  which the primary key and the foreign key on \<^verbatim>\<open>userId\<close> may refuse. The columns that the
  values leave out take their defaults: \<^verbatim>\<open>subscriptionId\<close> is null and \<^verbatim>\<open>createdAt\<close> is
  the database's clock.
\<close>

definition handleInvoicePaymentSucceeded :: "env \<Rightarrow> db \<Rightarrow> stripe_object \<Rightarrow> error + db \<times> console_line list" where
  "handleInvoicePaymentSucceeded e d invoice =
     (case db_fault e of
        Some msg \<Rightarrow> Inl (Database_fault msg)
      | None \<Rightarrow>
          if \<not> int4 (amount_paid invoice) then Inl (Numeric_value_out_of_range ''integer'')
          else if Some (obj_id invoice) \<in> set (map stripeInvoiceId (invoices d)) then
            Inr (d\<lparr>invoices :=
                   update_where (\<lambda>r. stripeInvoiceId r = Some (obj_id invoice))
                     (\<lambda>r. r\<lparr>inv_status := ''paid'',
                            hostedInvoiceUrl := hosted_invoice_url invoice,
                            invoicePdf := invoice_pdf invoice\<rparr>)
                     (invoices d)\<rparr>, [])
          else if randomUUID e \<in> set (map inv_id (invoices d)) then
            Inl (Unique_violation ''invoices_pkey'')
          else if customer invoice \<notin> set (users d) then
            Inl (Foreign_key_violation ''invoices_userId_users_id_fk'')
          else
            Inr (d\<lparr>invoices := invoices d @
                   [\<lparr>inv_id = randomUUID e,
                     inv_userId = customer invoice,
                     subscriptionId = None,
                     stripeInvoiceId = Some (obj_id invoice),
                     amount = amount_paid invoice,
                     currency = obj_currency invoice,
                     inv_status = ''paid'',
                     hostedInvoiceUrl = hosted_invoice_url invoice,
                     invoicePdf = invoice_pdf invoice,
                     inv_createdAt = defaultNow e\<rparr>]\<rparr>, []))"

text \<open>
  \<^verbatim>\<open>
  async function handleInvoicePaymentFailed(invoice: any) {
    // Handle failed payment - send notification, update status, etc.
    console.log('Payment failed for invoice:', invoice.id)
  }
  \<close>
\<close>

definition handleInvoicePaymentFailed :: "env \<Rightarrow> db \<Rightarrow> stripe_object \<Rightarrow> error + db \<times> console_line list" where
  "handleInvoicePaymentFailed e d invoice =
     Inr (d, [Console_log [Str ''Payment failed for invoice:'', Str (obj_id invoice)]])"

subsection \<open>The route\<close>

text \<open>
  The \<^verbatim>\<open>switch (event.type)\<close> inside the second \<^verbatim>\<open>try\<close> of \<^verbatim>\<open>POST\<close>; the first two
  cases share one body.
\<close>

definition dispatch :: "env \<Rightarrow> db \<Rightarrow> event \<Rightarrow> error + db \<times> console_line list" where
  "dispatch e d ev =
     (if event_type ev = ''customer.subscription.created''
         \<or> event_type ev = ''customer.subscription.updated''
      then handleSubscriptionUpdate e d (data_object ev)
      else if event_type ev = ''customer.subscription.deleted''
      then handleSubscriptionDeleted e d (data_object ev)
      else if event_type ev = ''invoice.payment_succeeded''
      then handleInvoicePaymentSucceeded e d (data_object ev)
      else if event_type ev = ''invoice.payment_failed''
      then handleInvoicePaymentFailed e d (data_object ev)
      else Inr (d, [Console_log [Str (''Unhandled event type: '' @ event_type ev)]]))"

text \<open>
  \<^verbatim>\<open>
  export async function POST(req: NextRequest) {
    const body = await req.text()
    const signature = headers().get("stripe-signature")!
    let event: any
    try {
      event = stripe.webhooks.constructEvent(body, signature, process.env.STRIPE_WEBHOOK_SECRET!)
    } catch (error) {
      console.error('Webhook signature verification failed:', error)
      return NextResponse.json({ error: 'Invalid signature' }, { status: 400 })
    }
    try {
      switch (event.type) { ... }
      return NextResponse.json({ received: true })
    } catch (error) {
      console.error('Webhook handler error:', error)
      return NextResponse.json({ error: 'Webhook handler failed' }, { status: 500 })
    }
  }
  \<close>
  Each handler issues one statement, so a handler that throws has written nothing.
\<close>

definition POST :: "env \<Rightarrow> db \<Rightarrow> request \<Rightarrow> outcome" where
  "POST e d req =
     (case constructEvent e (body req) (stripe_signature req) (STRIPE_WEBHOOK_SECRET e) of
        Inl err \<Rightarrow>
          \<lparr>res = \<lparr>status = 400, json_body = Error_object ''Invalid signature''\<rparr>,
           store = d,
           console = [Console_error [Str ''Webhook signature verification failed:'', Err err]]\<rparr>
      | Inr ev \<Rightarrow>
          (case dispatch e d ev of
             Inr (d', out) \<Rightarrow>
               \<lparr>res = \<lparr>status = 200, json_body = Received True\<rparr>,
                store = d',
                console = out\<rparr>
           | Inl err \<Rightarrow>
               \<lparr>res = \<lparr>status = 500, json_body = Error_object ''Webhook handler failed''\<rparr>,
                store = d,
                console = [Console_error [Str ''Webhook handler error:'', Err err]]\<rparr>))"

subsection \<open>Integrity of the tables\<close>

text \<open>
  The \<^verbatim>\<open>.unique()\<close> columns of the schema. PostgreSQL's unique index admits any
  number of nulls, so only the non-null values of a nullable column are distinct.
\<close>

definition unique_nonnull :: "'a option list \<Rightarrow> bool" where
  "unique_nonnull xs \<longleftrightarrow> distinct (filter (\<lambda>x. x \<noteq> None) xs)"

definition unique_provider_ids :: "db \<Rightarrow> bool" where
  "unique_provider_ids d \<longleftrightarrow>
     unique_nonnull (map stripeSubscriptionId (subscriptions d))
   \<and> unique_nonnull (map stripeInvoiceId (invoices d))
   \<and> distinct (map stripePaymentMethodId (paymentMethods d))"

subsection \<open>Sample deliveries\<close>

text \<open>
  Concrete inputs at which the theorems below are exercised: a stand-in for the SDK that
  accepts exactly the header \<open>v1=\<close> followed by the secret and then decodes to a given
  event, an environment around it, a signed and a tampered request, payloads, and two
  databases.
\<close>

definition test_constructEvent :: "event \<Rightarrow> string \<Rightarrow> string option \<Rightarrow> string option \<Rightarrow> error + event" where
  "test_constructEvent ev payload header secret =
     (case secret of
        None \<Rightarrow> Inl (Stripe_error ''No webhook secret provided'')
      | Some key \<Rightarrow>
          if header = Some (''v1='' @ key) then Inr ev
          else Inl (Stripe_error ''No signatures found matching the expected signature for payload''))"

definition test_env :: "event \<Rightarrow> timestamp \<Rightarrow> string \<Rightarrow> env" where
  "test_env ev t uuid =
     \<lparr>constructEvent = test_constructEvent ev,
      STRIPE_WEBHOOK_SECRET = Some ''whsec_test'',
      now = t,
      defaultNow = t,
      randomUUID = uuid,
      db_fault = None\<rparr>"

definition signed_request :: request where
  "signed_request = \<lparr>body = ''{}'', stripe_signature = Some ''v1=whsec_test''\<rparr>"

definition tampered_request :: request where
  "tampered_request = \<lparr>body = ''{}'', stripe_signature = Some ''v1=forged''\<rparr>"

definition sub_123 :: stripe_object where
  "sub_123 =
     \<lparr>obj_id = ''sub_123'', obj_status = ''active'',
      current_period_start = 1700000000, current_period_end = 1702592000,
      cancel_at_period_end = False, customer = ''cus_1'', amount_paid = 0,
      obj_currency = ''usd'', hosted_invoice_url = None, invoice_pdf = None\<rparr>"

definition in_123 :: stripe_object where
  "in_123 =
     \<lparr>obj_id = ''in_123'', obj_status = ''paid'',
      current_period_start = 0, current_period_end = 0,
      cancel_at_period_end = False, customer = ''cus_1'', amount_paid = 999,
      obj_currency = ''usd'', hosted_invoice_url = Some ''https://x'',
      invoice_pdf = Some ''https://y''\<rparr>"

definition in_123_earlier :: stripe_object where
  "in_123_earlier = in_123\<lparr>amount_paid := 500, obj_currency := ''eur''\<rparr>"

definition subscription_created :: event where
  "subscription_created = \<lparr>event_type = ''customer.subscription.created'', data_object = sub_123\<rparr>"

definition subscription_updated :: event where
  "subscription_updated = \<lparr>event_type = ''customer.subscription.updated'', data_object = sub_123\<rparr>"

definition subscription_deleted :: event where
  "subscription_deleted = \<lparr>event_type = ''customer.subscription.deleted'', data_object = sub_123\<rparr>"

definition payment_succeeded :: event where
  "payment_succeeded = \<lparr>event_type = ''invoice.payment_succeeded'', data_object = in_123\<rparr>"

definition payment_succeeded_earlier :: event where
  "payment_succeeded_earlier =
     \<lparr>event_type = ''invoice.payment_succeeded'', data_object = in_123_earlier\<rparr>"

definition payment_failed :: event where
  "payment_failed = \<lparr>event_type = ''invoice.payment_failed'', data_object = in_123\<rparr>"

definition checkout_completed :: event where
  "checkout_completed = \<lparr>event_type = ''checkout.session.completed'', data_object = in_123\<rparr>"

definition db_empty :: db where
  "db_empty = \<lparr>users = [''cus_1''], subscriptions = [], invoices = [], paymentMethods = []\<rparr>"

definition row_sub_123 :: subscription_row where
  "row_sub_123 =
     \<lparr>sub_id = ''s1'', sub_userId = ''cus_1'', stripeSubscriptionId = Some ''sub_123'',
      stripeCustomerId = Some ''cus_1'', stripePriceId = Some ''price_pro_monthly'',
      sub_status = ''incomplete'', planId = ''pro'',
      currentPeriodStart = Some 1690000000000, currentPeriodEnd = Some 1692592000000,
      cancelAtPeriodEnd = None, sub_createdAt = 1690000000000, updatedAt = 1690000000000\<rparr>"

definition db_subscribed :: db where
  "db_subscribed = db_empty\<lparr>subscriptions := [row_sub_123]\<rparr>"

definition row_sub_456 :: subscription_row where
  "row_sub_456 =
     \<lparr>sub_id = ''s2'', sub_userId = ''cus_1'', stripeSubscriptionId = Some ''sub_456'',
      stripeCustomerId = Some ''cus_1'', stripePriceId = Some ''price_basic_monthly'',
      sub_status = ''active'', planId = ''basic'',
      currentPeriodStart = Some 1680000000000, currentPeriodEnd = Some 1682592000000,
      cancelAtPeriodEnd = Some False, sub_createdAt = 1680000000000, updatedAt = 1680000000000\<rparr>"

definition db_two_subscriptions :: db where
  "db_two_subscriptions = db_empty\<lparr>subscriptions := [row_sub_123, row_sub_456]\<rparr>"

lemmas fixtures = test_constructEvent_def test_env_def signed_request_def tampered_request_def
  sub_123_def in_123_def in_123_earlier_def subscription_created_def subscription_updated_def
  subscription_deleted_def payment_succeeded_def payment_succeeded_earlier_def
  payment_failed_def checkout_completed_def db_empty_def row_sub_123_def db_subscribed_def
  row_sub_456_def db_two_subscriptions_def

lemmas route_defs = POST_def dispatch_def handleSubscriptionUpdate_def
  handleSubscriptionDeleted_def handleInvoicePaymentSucceeded_def
  handleInvoicePaymentFailed_def update_where_def new_Date_def int4_def

section \<open>Auxiliary facts about the route\<close>

lemma POST_verified:
  assumes "constructEvent e (body req) (stripe_signature req) (STRIPE_WEBHOOK_SECRET e) = Inr ev"
  shows "POST e d req =
     (case dispatch e d ev of
        Inr (d', out) \<Rightarrow>
          \<lparr>res = \<lparr>status = 200, json_body = Received True\<rparr>, store = d', console = out\<rparr>
      | Inl err \<Rightarrow>
          \<lparr>res = \<lparr>status = 500, json_body = Error_object ''Webhook handler failed''\<rparr>,
           store = d,
           console = [Console_error [Str ''Webhook handler error:'', Err err]]\<rparr>)"
  using assms by (simp add: POST_def)

lemma POST_ok_dispatch:
  assumes "constructEvent e (body req) (stripe_signature req) (STRIPE_WEBHOOK_SECRET e) = Inr ev"
    and "status (res (POST e d req)) = 200"
  shows "\<exists>out. dispatch e d ev = Inr (store (POST e d req), out)"
  using assms by (auto simp: POST_verified split: sum.splits)

lemma update_where_no_match:
  assumes "\<forall>r\<in>set rows. \<not> p r"
  shows "update_where p f rows = rows"
  using assms by (simp add: update_where_def map_idI)

lemma handleSubscriptionUpdate_Inr:
  assumes "handleSubscriptionUpdate e d s = Inr (d', out)"
  shows "d' = d\<lparr>subscriptions :=
                 update_where (\<lambda>r. stripeSubscriptionId r = Some (obj_id s))
                   (\<lambda>r. r\<lparr>sub_status := obj_status s,
                          currentPeriodStart := Some (current_period_start s * 1000),
                          currentPeriodEnd := Some (current_period_end s * 1000),
                          cancelAtPeriodEnd := Some (cancel_at_period_end s),
                          updatedAt := now e\<rparr>)
                   (subscriptions d)\<rparr>"
    and "out = []"
  using assms
  by (auto simp: handleSubscriptionUpdate_def new_Date_def split: option.splits if_splits)

lemma handleSubscriptionDeleted_Inr:
  assumes "handleSubscriptionDeleted e d s = Inr (d', out)"
  shows "d' = d\<lparr>subscriptions :=
                 update_where (\<lambda>r. stripeSubscriptionId r = Some (obj_id s))
                   (\<lambda>r. r\<lparr>sub_status := ''canceled'', updatedAt := now e\<rparr>)
                   (subscriptions d)\<rparr>"
    and "out = []"
  using assms
  by (auto simp: handleSubscriptionDeleted_def split: option.splits)

lemma dispatch_subscription_update:
  assumes "event_type ev = ''customer.subscription.created''
         \<or> event_type ev = ''customer.subscription.updated''"
  shows "dispatch e d ev = handleSubscriptionUpdate e d (data_object ev)"
  using assms by (auto simp: dispatch_def)

lemma dispatch_subscription_deleted:
  assumes "event_type ev = ''customer.subscription.deleted''"
  shows "dispatch e d ev = handleSubscriptionDeleted e d (data_object ev)"
  using assms by (simp add: dispatch_def)

lemma dispatch_payment_succeeded:
  assumes "event_type ev = ''invoice.payment_succeeded''"
  shows "dispatch e d ev = handleInvoicePaymentSucceeded e d (data_object ev)"
  using assms by (simp add: dispatch_def)

lemma POST_store_cases:
  "store (POST e d req) = d
   \<or> (\<exists>ev out. constructEvent e (body req) (stripe_signature req) (STRIPE_WEBHOOK_SECRET e) = Inr ev
         \<and> dispatch e d ev = Inr (store (POST e d req), out))"
  by (auto simp: POST_def split: sum.splits)

lemma handleInvoicePaymentSucceeded_Inr:
  assumes "handleInvoicePaymentSucceeded e d invoice = Inr (d', out)"
  shows "Some (obj_id invoice) \<in> set (map stripeInvoiceId (invoices d)) \<Longrightarrow>
           d' = d\<lparr>invoices :=
                   update_where (\<lambda>r. stripeInvoiceId r = Some (obj_id invoice))
                     (\<lambda>r. r\<lparr>inv_status := ''paid'',
                            hostedInvoiceUrl := hosted_invoice_url invoice,
                            invoicePdf := invoice_pdf invoice\<rparr>)
                     (invoices d)\<rparr>"
    and "Some (obj_id invoice) \<notin> set (map stripeInvoiceId (invoices d)) \<Longrightarrow>
           d' = d\<lparr>invoices := invoices d @
                   [\<lparr>inv_id = randomUUID e,
                     inv_userId = customer invoice,
                     subscriptionId = None,
                     stripeInvoiceId = Some (obj_id invoice),
                     amount = amount_paid invoice,
                     currency = obj_currency invoice,
                     inv_status = ''paid'',
                     hostedInvoiceUrl = hosted_invoice_url invoice,
                     invoicePdf = invoice_pdf invoice,
                     inv_createdAt = defaultNow e\<rparr>]\<rparr>"
    and "out = []"
  using assms
  by (auto simp: handleInvoicePaymentSucceeded_def split: option.splits if_splits)

lemma map_key_update_where:
  assumes "\<And>r. k (f r) = k r"
  shows "map k (update_where p f rows) = map k rows"
  using assms by (simp add: update_where_def)

lemma unique_nonnull_snoc:
  assumes "unique_nonnull xs" and "Some x \<notin> set xs"
  shows "unique_nonnull (xs @ [Some x])"
  using assms by (simp add: unique_nonnull_def)

lemma unique_nonnull_count:
  assumes "unique_nonnull (map k rows)" and "Some i \<in> set (map k rows)"
  shows "length (filter (\<lambda>r. k r = Some i) rows) = 1"
  using assms
proof (induction rows)
  case Nil
  then show ?case by simp
next
  case (Cons r rows)
  show ?case
  proof (cases "k r = Some i")
    case True
    with Cons.prems(1) have "Some i \<notin> set (map k rows)"
      by (simp add: unique_nonnull_def)
    then have "filter (\<lambda>r. k r = Some i) rows = []"
      by (auto simp: filter_empty_conv image_iff)
    with True show ?thesis by simp
  next
    case False
    with Cons.prems have "unique_nonnull (map k rows)" and "Some i \<in> set (map k rows)"
      by (auto simp: unique_nonnull_def split: if_splits)
    with Cons.IH False show ?thesis by simp
  qed
qed

lemma dispatch_keys:
  assumes "dispatch e d ev = Inr (d', out)"
  shows "map stripeSubscriptionId (subscriptions d') = map stripeSubscriptionId (subscriptions d)"
    and "map stripePaymentMethodId (paymentMethods d') = map stripePaymentMethodId (paymentMethods d)"
    and "map stripeInvoiceId (invoices d') = map stripeInvoiceId (invoices d)
         \<or> (event_type ev = ''invoice.payment_succeeded''
            \<and> Some (obj_id (data_object ev)) \<notin> set (map stripeInvoiceId (invoices d))
            \<and> map stripeInvoiceId (invoices d') =
                map stripeInvoiceId (invoices d) @ [Some (obj_id (data_object ev))])"
proof -
  consider (upd) "event_type ev = ''customer.subscription.created''
                \<or> event_type ev = ''customer.subscription.updated''"
    | (del) "event_type ev = ''customer.subscription.deleted''"
    | (paid) "event_type ev = ''invoice.payment_succeeded''"
    | (failed) "event_type ev = ''invoice.payment_failed''"
    | (unhandled) "event_type ev \<noteq> ''customer.subscription.created''"
        "event_type ev \<noteq> ''customer.subscription.updated''"
        "event_type ev \<noteq> ''customer.subscription.deleted''"
        "event_type ev \<noteq> ''invoice.payment_succeeded''"
        "event_type ev \<noteq> ''invoice.payment_failed''"
    by blast
  then have "map stripeSubscriptionId (subscriptions d') = map stripeSubscriptionId (subscriptions d)
    \<and> map stripePaymentMethodId (paymentMethods d') = map stripePaymentMethodId (paymentMethods d)
    \<and> (map stripeInvoiceId (invoices d') = map stripeInvoiceId (invoices d)
         \<or> (event_type ev = ''invoice.payment_succeeded''
            \<and> Some (obj_id (data_object ev)) \<notin> set (map stripeInvoiceId (invoices d))
            \<and> map stripeInvoiceId (invoices d') =
                map stripeInvoiceId (invoices d) @ [Some (obj_id (data_object ev))]))"
  proof cases
    case upd
    with assms have "handleSubscriptionUpdate e d (data_object ev) = Inr (d', out)"
      by (simp add: dispatch_subscription_update)
    from handleSubscriptionUpdate_Inr(1) [OF this] show ?thesis
      by (simp add: map_key_update_where)
  next
    case del
    with assms have "handleSubscriptionDeleted e d (data_object ev) = Inr (d', out)"
      by (simp add: dispatch_subscription_deleted)
    from handleSubscriptionDeleted_Inr(1) [OF this] show ?thesis
      by (simp add: map_key_update_where)
  next
    case paid
    with assms have h: "handleInvoicePaymentSucceeded e d (data_object ev) = Inr (d', out)"
      by (simp add: dispatch_payment_succeeded)
    show ?thesis
    proof (cases "Some (obj_id (data_object ev)) \<in> set (map stripeInvoiceId (invoices d))")
      case True
      from handleInvoicePaymentSucceeded_Inr(1) [OF h True] show ?thesis
        by (simp add: map_key_update_where)
    next
      case False
      from handleInvoicePaymentSucceeded_Inr(2) [OF h False] paid False show ?thesis
        by simp
    qed
  next
    case failed
    with assms have "d' = d"
      by (simp add: dispatch_def handleInvoicePaymentFailed_def)
    then show ?thesis by simp
  next
    case unhandled
    with assms have "d' = d"
      by (simp add: dispatch_def)
    then show ?thesis by simp
  qed
  then show "map stripeSubscriptionId (subscriptions d') = map stripeSubscriptionId (subscriptions d)"
    and "map stripePaymentMethodId (paymentMethods d') = map stripePaymentMethodId (paymentMethods d)"
    and "map stripeInvoiceId (invoices d') = map stripeInvoiceId (invoices d)
         \<or> (event_type ev = ''invoice.payment_succeeded''
            \<and> Some (obj_id (data_object ev)) \<notin> set (map stripeInvoiceId (invoices d))
            \<and> map stripeInvoiceId (invoices d') =
                map stripeInvoiceId (invoices d) @ [Some (obj_id (data_object ev))])"
    by blast+
qed

lemma dispatch_unique_provider_ids:
  assumes "dispatch e d ev = Inr (d', out)" and "unique_provider_ids d"
  shows "unique_provider_ids d'"
  using dispatch_keys [OF assms(1)] assms(2)
  by (auto simp: unique_provider_ids_def unique_nonnull_snoc simp del: map_append)

lemma POST_unique_provider_ids:
  assumes "unique_provider_ids d"
  shows "unique_provider_ids (store (POST e d req))"
  using POST_store_cases [of e d req] assms
  by (auto dest: dispatch_unique_provider_ids)

lemma POST_invoice_ids_mono:
  "set (map stripeInvoiceId (invoices d)) \<subseteq> set (map stripeInvoiceId (invoices (store (POST e d req))))"
proof -
  from POST_store_cases [of e d req] show ?thesis
  proof
    assume "store (POST e d req) = d"
    then show ?thesis by simp
  next
    assume "\<exists>ev out. constructEvent e (body req) (stripe_signature req) (STRIPE_WEBHOOK_SECRET e) = Inr ev
         \<and> dispatch e d ev = Inr (store (POST e d req), out)"
    then obtain ev out where "dispatch e d ev = Inr (store (POST e d req), out)" by blast
    from dispatch_keys(3) [OF this] show ?thesis
      by (elim disjE conjE) (simp_all add: subset_insertI del: set_map)
  qed
qed

lemma payment_succeeded_records_id:
  assumes "handleInvoicePaymentSucceeded e d invoice = Inr (d', out)"
  shows "Some (obj_id invoice) \<in> set (map stripeInvoiceId (invoices d'))"
proof (cases "Some (obj_id invoice) \<in> set (map stripeInvoiceId (invoices d))")
  case True
  from handleInvoicePaymentSucceeded_Inr(1) [OF assms True] True show ?thesis
    by (simp add: map_key_update_where del: set_map)
next
  case False
  from handleInvoicePaymentSucceeded_Inr(2) [OF assms False] show ?thesis
    by simp
qed

section \<open>Verification failure\<close>

text \<open>
  C1. When \<^verbatim>\<open>constructEvent\<close> throws on the request's raw body and signature header, the
  route answers with status 400 and an error object, and the database it leaves is the
  database it found: no table is written.
\<close>

theorem C1_invalid_signature_400_no_write:
  assumes "constructEvent e (body req) (stripe_signature req) (STRIPE_WEBHOOK_SECRET e) = Inl err"
  shows "res (POST e d req) = \<lparr>status = 400, json_body = Error_object ''Invalid signature''\<rparr>
       \<and> store (POST e d req) = d"
  using assms by (simp add: POST_def)

theorem C1_invalid_signature_witness:
  "res (POST (test_env subscription_updated 1000 ''u1'') db_subscribed tampered_request)
     = \<lparr>status = 400, json_body = Error_object ''Invalid signature''\<rparr>
   \<and> store (POST (test_env subscription_updated 1000 ''u1'') db_subscribed tampered_request)
     = db_subscribed"
  using C1_invalid_signature_400_no_write
    [of "test_env subscription_updated 1000 ''u1''" tampered_request _ db_subscribed]
  by (simp add: test_env_def test_constructEvent_def tampered_request_def)

section \<open>Subscription events\<close>

text \<open>
  C3 as stated asks for an upsert: a row for the provider's subscription id after the event
  even when there was none. \<^verbatim>\<open>handleSubscriptionUpdate\<close> is a plain \<^verbatim>\<open>UPDATE ... WHERE\<close>;
  on a table without that id the event is acknowledged and the table stays empty.
\<close>

theorem C3_counterexample:
  "status (res (POST (test_env subscription_created 1000 ''u1'') db_empty signed_request)) = 200
   \<and> subscriptions (store (POST (test_env subscription_created 1000 ''u1'') db_empty signed_request)) = []"
  by (simp add: fixtures route_defs)

text \<open>
  C3, amended. For every verified \<^verbatim>\<open>customer.subscription.created\<close> or
  \<^verbatim>\<open>customer.subscription.updated\<close> event that the route acknowledges with 200, every
  existing row whose \<^verbatim>\<open>stripeSubscriptionId\<close> is the payload's id gets the payload's status,
  the payload's period bounds times 1000 as timestamps, the payload's cancel flag and the
  current time as \<^verbatim>\<open>updatedAt\<close>; every other row and every other table is as before; and
  where no row carries that id nothing is inserted: the database is unchanged.
\<close>

theorem C3_subscription_event_updates_matching_rows:
  assumes verified: "constructEvent e (body req) (stripe_signature req) (STRIPE_WEBHOOK_SECRET e) = Inr ev"
    and ty: "event_type ev = ''customer.subscription.created''
           \<or> event_type ev = ''customer.subscription.updated''"
    and ok: "status (res (POST e d req)) = 200"
  shows "store (POST e d req) =
           d\<lparr>subscriptions :=
               map (\<lambda>r. if stripeSubscriptionId r = Some (obj_id (data_object ev))
                        then r\<lparr>sub_status := obj_status (data_object ev),
                               currentPeriodStart := Some (current_period_start (data_object ev) * 1000),
                               currentPeriodEnd := Some (current_period_end (data_object ev) * 1000),
                               cancelAtPeriodEnd := Some (cancel_at_period_end (data_object ev)),
                               updatedAt := now e\<rparr>
                        else r)
                   (subscriptions d)\<rparr>
       \<and> (Some (obj_id (data_object ev)) \<notin> set (map stripeSubscriptionId (subscriptions d))
            \<longrightarrow> store (POST e d req) = d)"
proof -
  from POST_ok_dispatch [OF verified ok] obtain out
    where "dispatch e d ev = Inr (store (POST e d req), out)" ..
  with ty have h: "handleSubscriptionUpdate e d (data_object ev) = Inr (store (POST e d req), out)"
    by (simp add: dispatch_subscription_update)
  note eq = handleSubscriptionUpdate_Inr(1) [OF h]
  have first: "store (POST e d req) =
           d\<lparr>subscriptions :=
               map (\<lambda>r. if stripeSubscriptionId r = Some (obj_id (data_object ev))
                        then r\<lparr>sub_status := obj_status (data_object ev),
                               currentPeriodStart := Some (current_period_start (data_object ev) * 1000),
                               currentPeriodEnd := Some (current_period_end (data_object ev) * 1000),
                               cancelAtPeriodEnd := Some (cancel_at_period_end (data_object ev)),
                               updatedAt := now e\<rparr>
                        else r)
                   (subscriptions d)\<rparr>"
    using eq by (simp add: update_where_def)
  have second: "store (POST e d req) = d"
    if "Some (obj_id (data_object ev)) \<notin> set (map stripeSubscriptionId (subscriptions d))"
  proof -
    from that have "\<forall>r\<in>set (subscriptions d). \<not> stripeSubscriptionId r = Some (obj_id (data_object ev))"
      by force
    then show ?thesis
      using eq by (simp add: update_where_no_match)
  qed
  from first second show ?thesis by blast
qed

theorem C3_subscription_event_witness:
  "store (POST (test_env subscription_updated 1000 ''u1'') db_subscribed signed_request) =
     db_subscribed\<lparr>subscriptions :=
       [row_sub_123\<lparr>sub_status := ''active'',
                    currentPeriodStart := Some 1700000000000,
                    currentPeriodEnd := Some 1702592000000,
                    cancelAtPeriodEnd := Some False,
                    updatedAt := 1000\<rparr>]\<rparr>"
proof -
  have v: "constructEvent (test_env subscription_updated 1000 ''u1'') (body signed_request)
       (stripe_signature signed_request) (STRIPE_WEBHOOK_SECRET (test_env subscription_updated 1000 ''u1''))
     = Inr subscription_updated"
    by (simp add: test_env_def test_constructEvent_def signed_request_def)
  have ty: "event_type subscription_updated = ''customer.subscription.created''
           \<or> event_type subscription_updated = ''customer.subscription.updated''"
    by (simp add: subscription_updated_def)
  have ok: "status (res (POST (test_env subscription_updated 1000 ''u1'') db_subscribed signed_request)) = 200"
    by (simp add: fixtures route_defs)
  show ?thesis
    using C3_subscription_event_updates_matching_rows [OF v ty ok]
    by (simp add: fixtures)
qed

text \<open>
  C4 as stated makes every column of the row the same after the first and after the second
  delivery. \<^verbatim>\<open>updatedAt\<close> is set from \<^verbatim>\<open>new Date()\<close> at each delivery: delivered at time
  1000 and again at time 2000, the row's \<^verbatim>\<open>updatedAt\<close> is 1000 and then 2000.
\<close>

theorem C4_counterexample:
  "status (res (POST (test_env subscription_updated 1000 ''u1'') db_subscribed signed_request)) = 200
   \<and> status (res (POST (test_env subscription_updated 2000 ''u2'')
         (store (POST (test_env subscription_updated 1000 ''u1'') db_subscribed signed_request))
         signed_request)) = 200
   \<and> map updatedAt (subscriptions (store
      (POST (test_env subscription_updated 1000 ''u1'') db_subscribed signed_request))) = [1000]
   \<and> map updatedAt (subscriptions (store
      (POST (test_env subscription_updated 2000 ''u2'')
         (store (POST (test_env subscription_updated 1000 ''u1'') db_subscribed signed_request))
         signed_request))) = [2000]"
  by (simp add: fixtures route_defs)

text \<open>
  C4, amended. When a verified \<^verbatim>\<open>customer.subscription.updated\<close> event is delivered twice
  with the same payload and both deliveries are acknowledged with 200, the database after the
  second delivery is the database after the first except that the rows with the payload's
  provider id carry the second delivery's time as \<^verbatim>\<open>updatedAt\<close>; every other column of
  every row is identical, and the two databases are equal when the two deliveries read the
  same time.
\<close>

theorem C4_replay_identical_up_to_updatedAt:
  assumes v1: "constructEvent e1 (body req) (stripe_signature req) (STRIPE_WEBHOOK_SECRET e1) = Inr ev"
    and v2: "constructEvent e2 (body req) (stripe_signature req) (STRIPE_WEBHOOK_SECRET e2) = Inr ev"
    and ty: "event_type ev = ''customer.subscription.updated''"
    and ok1: "status (res (POST e1 d req)) = 200"
    and ok2: "status (res (POST e2 (store (POST e1 d req)) req)) = 200"
  shows "store (POST e2 (store (POST e1 d req)) req) =
           (store (POST e1 d req))\<lparr>subscriptions :=
              map (\<lambda>r. if stripeSubscriptionId r = Some (obj_id (data_object ev))
                       then r\<lparr>updatedAt := now e2\<rparr> else r)
                  (subscriptions (store (POST e1 d req)))\<rparr>
       \<and> (now e2 = now e1 \<longrightarrow> store (POST e2 (store (POST e1 d req)) req) = store (POST e1 d req))"
proof -
  let ?d1 = "store (POST e1 d req)"
  let ?d2 = "store (POST e2 ?d1 req)"
  let ?sid = "obj_id (data_object ev)"
  from POST_ok_dispatch [OF v1 ok1] ty obtain out1
    where h1: "handleSubscriptionUpdate e1 d (data_object ev) = Inr (?d1, out1)"
    by (auto simp: dispatch_subscription_update)
  from POST_ok_dispatch [OF v2 ok2] ty obtain out2
    where h2: "handleSubscriptionUpdate e2 ?d1 (data_object ev) = Inr (?d2, out2)"
    by (auto simp: dispatch_subscription_update)
  note eq1 = handleSubscriptionUpdate_Inr(1) [OF h1]
  note eq2 = handleSubscriptionUpdate_Inr(1) [OF h2]
  have subs1: "subscriptions ?d1 =
      update_where (\<lambda>r. stripeSubscriptionId r = Some ?sid)
        (\<lambda>r. r\<lparr>sub_status := obj_status (data_object ev),
               currentPeriodStart := Some (current_period_start (data_object ev) * 1000),
               currentPeriodEnd := Some (current_period_end (data_object ev) * 1000),
               cancelAtPeriodEnd := Some (cancel_at_period_end (data_object ev)),
               updatedAt := now e1\<rparr>)
        (subscriptions d)"
    by (subst eq1) simp
  have first: "?d2 = ?d1\<lparr>subscriptions :=
              map (\<lambda>r. if stripeSubscriptionId r = Some ?sid
                       then r\<lparr>updatedAt := now e2\<rparr> else r)
                  (subscriptions ?d1)\<rparr>"
    by (subst eq2, subst (1 2) subs1) (simp add: update_where_def)
  have second: "?d2 = ?d1" if "now e2 = now e1"
  proof -
    have "map (\<lambda>r. if stripeSubscriptionId r = Some ?sid
                       then r\<lparr>updatedAt := now e2\<rparr> else r)
                  (subscriptions ?d1) = subscriptions ?d1"
      by (subst (1 2) subs1) (simp add: update_where_def that)
    with first show ?thesis by simp
  qed
  from first second show ?thesis by blast
qed

theorem C4_replay_witness:
  "store (POST (test_env subscription_updated 2000 ''u2'')
            (store (POST (test_env subscription_updated 1000 ''u1'') db_subscribed signed_request))
            signed_request) =
     db_subscribed\<lparr>subscriptions :=
       [row_sub_123\<lparr>sub_status := ''active'',
                    currentPeriodStart := Some 1700000000000,
                    currentPeriodEnd := Some 1702592000000,
                    cancelAtPeriodEnd := Some False,
                    updatedAt := 2000\<rparr>]\<rparr>"
proof -
  let ?e1 = "test_env subscription_updated 1000 ''u1''"
  let ?e2 = "test_env subscription_updated 2000 ''u2''"
  have v1: "constructEvent ?e1 (body signed_request) (stripe_signature signed_request)
              (STRIPE_WEBHOOK_SECRET ?e1) = Inr subscription_updated"
    by (simp add: test_env_def test_constructEvent_def signed_request_def)
  have v2: "constructEvent ?e2 (body signed_request) (stripe_signature signed_request)
              (STRIPE_WEBHOOK_SECRET ?e2) = Inr subscription_updated"
    by (simp add: test_env_def test_constructEvent_def signed_request_def)
  have ty: "event_type subscription_updated = ''customer.subscription.updated''"
    by (simp add: subscription_updated_def)
  have ok1: "status (res (POST ?e1 db_subscribed signed_request)) = 200"
    by (simp add: fixtures route_defs)
  have ok2: "status (res (POST ?e2 (store (POST ?e1 db_subscribed signed_request)) signed_request)) = 200"
    by (simp add: fixtures route_defs)
  show ?thesis
    using C4_replay_identical_up_to_updatedAt [OF v1 v2 ty ok1 ok2]
    by (simp add: fixtures route_defs)
qed

text \<open>
  C5 as stated has the row exist, canceled, after \<^verbatim>\<open>created\<close> then \<^verbatim>\<open>deleted\<close> for any
  provider id. Neither handler inserts: from a table without the id both events are
  acknowledged and the table is still empty.
\<close>

theorem C5_counterexample:
  "status (res (POST (test_env subscription_created 1000 ''u1'') db_empty signed_request)) = 200
   \<and> status (res (POST (test_env subscription_deleted 2000 ''u2'')
        (store (POST (test_env subscription_created 1000 ''u1'') db_empty signed_request))
        signed_request)) = 200
   \<and> subscriptions (store (POST (test_env subscription_deleted 2000 ''u2'')
        (store (POST (test_env subscription_created 1000 ''u1'') db_empty signed_request))
        signed_request)) = []"
  by (simp add: fixtures route_defs)

text \<open>
  C5, amended. For every provider subscription id that a local row already carries,
  processing a \<^verbatim>\<open>customer.subscription.created\<close> event and then a
  \<^verbatim>\<open>customer.subscription.deleted\<close> event for that id, both acknowledged with 200, leaves
  every row with that id in status \<^verbatim>\<open>canceled\<close>, and such a row still exists. The
  \<^verbatim>\<open>deleted\<close> event writes the status and \<^verbatim>\<open>updatedAt\<close> of the rows with that id and nothing
  else; over the two events those rows also take the period bounds and the cancel flag of the
  \<^verbatim>\<open>created\<close> payload, and every other column of them, every row with another id and every
  other table are as they were. No row is deleted and none is added: the table keeps its
  primary keys and provider ids, in order.
\<close>

theorem C5_created_then_deleted_cancels_existing_row:
  assumes vc: "constructEvent e1 (body req1) (stripe_signature req1) (STRIPE_WEBHOOK_SECRET e1) = Inr created"
    and vd: "constructEvent e2 (body req2) (stripe_signature req2) (STRIPE_WEBHOOK_SECRET e2) = Inr deleted"
    and tc: "event_type created = ''customer.subscription.created''"
    and td: "event_type deleted = ''customer.subscription.deleted''"
    and idc: "obj_id (data_object created) = sid"
    and idd: "obj_id (data_object deleted) = sid"
    and ok1: "status (res (POST e1 d req1)) = 200"
    and ok2: "status (res (POST e2 (store (POST e1 d req1)) req2)) = 200"
    and row: "Some sid \<in> set (map stripeSubscriptionId (subscriptions d))"
  shows "Some sid \<in> set (map stripeSubscriptionId (subscriptions (store (POST e2 (store (POST e1 d req1)) req2))))
       \<and> (\<forall>r \<in> set (subscriptions (store (POST e2 (store (POST e1 d req1)) req2))).
             stripeSubscriptionId r = Some sid \<longrightarrow> sub_status r = ''canceled'')
       \<and> map sub_id (subscriptions (store (POST e2 (store (POST e1 d req1)) req2)))
           = map sub_id (subscriptions d)
       \<and> map stripeSubscriptionId (subscriptions (store (POST e2 (store (POST e1 d req1)) req2)))
           = map stripeSubscriptionId (subscriptions d)
       \<and> store (POST e2 (store (POST e1 d req1)) req2) =
           (store (POST e1 d req1))\<lparr>subscriptions :=
              map (\<lambda>r. if stripeSubscriptionId r = Some sid
                       then r\<lparr>sub_status := ''canceled'', updatedAt := now e2\<rparr>
                       else r)
                  (subscriptions (store (POST e1 d req1)))\<rparr>
       \<and> store (POST e2 (store (POST e1 d req1)) req2) =
           d\<lparr>subscriptions :=
              map (\<lambda>r. if stripeSubscriptionId r = Some sid
                       then r\<lparr>sub_status := ''canceled'',
                              currentPeriodStart := Some (current_period_start (data_object created) * 1000),
                              currentPeriodEnd := Some (current_period_end (data_object created) * 1000),
                              cancelAtPeriodEnd := Some (cancel_at_period_end (data_object created)),
                              updatedAt := now e2\<rparr>
                       else r)
                  (subscriptions d)\<rparr>"
proof -
  let ?d1 = "store (POST e1 d req1)"
  let ?d2 = "store (POST e2 ?d1 req2)"
  from POST_ok_dispatch [OF vc ok1] tc obtain out1
    where h1: "handleSubscriptionUpdate e1 d (data_object created) = Inr (?d1, out1)"
    by (auto simp: dispatch_subscription_update)
  from POST_ok_dispatch [OF vd ok2] td obtain out2
    where h2: "handleSubscriptionDeleted e2 ?d1 (data_object deleted) = Inr (?d2, out2)"
    by (auto simp: dispatch_subscription_deleted)
  note eq1 = handleSubscriptionUpdate_Inr(1) [OF h1]
  note eq2 = handleSubscriptionDeleted_Inr(1) [OF h2]
  have subs1: "subscriptions ?d1 =
      update_where (\<lambda>r. stripeSubscriptionId r = Some sid)
        (\<lambda>r. r\<lparr>sub_status := obj_status (data_object created),
               currentPeriodStart := Some (current_period_start (data_object created) * 1000),
               currentPeriodEnd := Some (current_period_end (data_object created) * 1000),
               cancelAtPeriodEnd := Some (cancel_at_period_end (data_object created)),
               updatedAt := now e1\<rparr>)
        (subscriptions d)"
    by (subst eq1) (simp add: idc)
  have ids1: "map sub_id (subscriptions ?d1) = map sub_id (subscriptions d)"
    by (simp add: subs1 update_where_def)
  have keys1: "map stripeSubscriptionId (subscriptions ?d1) = map stripeSubscriptionId (subscriptions d)"
    by (simp add: subs1 update_where_def)
  have subs2: "subscriptions ?d2 =
      update_where (\<lambda>r. stripeSubscriptionId r = Some sid)
        (\<lambda>r. r\<lparr>sub_status := ''canceled'', updatedAt := now e2\<rparr>) (subscriptions ?d1)"
    by (subst eq2) (simp add: idd)
  have ids2: "map sub_id (subscriptions ?d2) = map sub_id (subscriptions ?d1)"
    by (simp add: subs2 update_where_def)
  have keys2: "map stripeSubscriptionId (subscriptions ?d2) = map stripeSubscriptionId (subscriptions ?d1)"
    by (simp add: subs2 update_where_def)
  have canceled: "\<forall>r \<in> set (subscriptions ?d2). stripeSubscriptionId r = Some sid \<longrightarrow> sub_status r = ''canceled''"
    by (auto simp: subs2 update_where_def)
  from row keys1 keys2 have present: "Some sid \<in> set (map stripeSubscriptionId (subscriptions ?d2))"
    by simp
  have step: "?d2 = ?d1\<lparr>subscriptions :=
              map (\<lambda>r. if stripeSubscriptionId r = Some sid
                       then r\<lparr>sub_status := ''canceled'', updatedAt := now e2\<rparr>
                       else r)
                  (subscriptions ?d1)\<rparr>"
    by (subst eq2) (simp add: idd update_where_def)
  have whole: "?d2 = d\<lparr>subscriptions :=
              map (\<lambda>r. if stripeSubscriptionId r = Some sid
                       then r\<lparr>sub_status := ''canceled'',
                              currentPeriodStart := Some (current_period_start (data_object created) * 1000),
                              currentPeriodEnd := Some (current_period_end (data_object created) * 1000),
                              cancelAtPeriodEnd := Some (cancel_at_period_end (data_object created)),
                              updatedAt := now e2\<rparr>
                       else r)
                  (subscriptions d)\<rparr>"
    by (subst step, subst subs1, subst eq1) (simp add: update_where_def)
  from ids2 ids1 have ids: "map sub_id (subscriptions ?d2) = map sub_id (subscriptions d)"
    by (rule trans)
  from keys2 keys1
  have keys: "map stripeSubscriptionId (subscriptions ?d2) = map stripeSubscriptionId (subscriptions d)"
    by (rule trans)
  from present canceled ids keys step whole show ?thesis
    by blast
qed

theorem C5_created_then_deleted_witness:
  "store (POST (test_env subscription_deleted 2000 ''u2'')
        (store (POST (test_env subscription_created 1000 ''u1'') db_two_subscriptions signed_request))
        signed_request) =
     db_empty\<lparr>subscriptions :=
       [row_sub_123\<lparr>sub_status := ''canceled'',
                    currentPeriodStart := Some 1700000000000,
                    currentPeriodEnd := Some 1702592000000,
                    cancelAtPeriodEnd := Some False,
                    updatedAt := 2000\<rparr>,
        row_sub_456]\<rparr>"
proof -
  let ?e1 = "test_env subscription_created 1000 ''u1''"
  let ?e2 = "test_env subscription_deleted 2000 ''u2''"
  have vc: "constructEvent ?e1 (body signed_request) (stripe_signature signed_request)
              (STRIPE_WEBHOOK_SECRET ?e1) = Inr subscription_created"
    by (simp add: test_env_def test_constructEvent_def signed_request_def)
  have vd: "constructEvent ?e2 (body signed_request) (stripe_signature signed_request)
              (STRIPE_WEBHOOK_SECRET ?e2) = Inr subscription_deleted"
    by (simp add: test_env_def test_constructEvent_def signed_request_def)
  have tc: "event_type subscription_created = ''customer.subscription.created''"
    by (simp add: subscription_created_def)
  have td: "event_type subscription_deleted = ''customer.subscription.deleted''"
    by (simp add: subscription_deleted_def)
  have idc: "obj_id (data_object subscription_created) = ''sub_123''"
    by (simp add: subscription_created_def sub_123_def)
  have idd: "obj_id (data_object subscription_deleted) = ''sub_123''"
    by (simp add: subscription_deleted_def sub_123_def)
  have ok1: "status (res (POST ?e1 db_two_subscriptions signed_request)) = 200"
    by (simp add: fixtures route_defs)
  have ok2: "status (res (POST ?e2 (store (POST ?e1 db_two_subscriptions signed_request)) signed_request)) = 200"
    by (simp add: fixtures route_defs)
  have row: "Some ''sub_123'' \<in> set (map stripeSubscriptionId (subscriptions db_two_subscriptions))"
    by (simp add: db_two_subscriptions_def db_empty_def row_sub_123_def)
  note c5 = C5_created_then_deleted_cancels_existing_row [OF vc vd tc td idc idd ok1 ok2 row]
  show ?thesis
    using c5 by (simp add: fixtures route_defs)
qed

section \<open>Invoice events\<close>

text \<open>
  C2. From a database that satisfies the schema's unique constraints, every request to the
  route, whatever it carries, leaves a database that satisfies them: no two rows share a
  provider subscription id, a provider invoice id or a provider payment-method id. When a
  verified \<^verbatim>\<open>invoice.payment_succeeded\<close> event is acknowledged with 200, exactly one invoice
  row carries its \<^verbatim>\<open>stripeInvoiceId\<close>, and exactly one still does after any further request,
  the same event delivered again included: the second delivery meets the conflict on
  \<^verbatim>\<open>stripeInvoiceId\<close> and updates the row in place.
\<close>

theorem C2_one_row_per_provider_id:
  assumes uniq: "unique_provider_ids d"
  shows "unique_provider_ids (store (POST e1 d req))
       \<and> unique_provider_ids (store (POST e2 (store (POST e1 d req)) req2))
       \<and> (constructEvent e1 (body req) (stripe_signature req) (STRIPE_WEBHOOK_SECRET e1) = Inr ev
            \<and> event_type ev = ''invoice.payment_succeeded''
            \<and> status (res (POST e1 d req)) = 200
          \<longrightarrow> length (filter (\<lambda>r. stripeInvoiceId r = Some (obj_id (data_object ev)))
                         (invoices (store (POST e1 d req)))) = 1
            \<and> length (filter (\<lambda>r. stripeInvoiceId r = Some (obj_id (data_object ev)))
                         (invoices (store (POST e2 (store (POST e1 d req)) req2)))) = 1)"
proof -
  let ?d1 = "store (POST e1 d req)"
  let ?d2 = "store (POST e2 ?d1 req2)"
  have u1: "unique_provider_ids ?d1"
    using uniq by (rule POST_unique_provider_ids)
  then have u2: "unique_provider_ids ?d2"
    by (rule POST_unique_provider_ids)
  have counts: "length (filter (\<lambda>r. stripeInvoiceId r = Some (obj_id (data_object ev))) (invoices ?d1)) = 1
     \<and> length (filter (\<lambda>r. stripeInvoiceId r = Some (obj_id (data_object ev))) (invoices ?d2)) = 1"
    if v: "constructEvent e1 (body req) (stripe_signature req) (STRIPE_WEBHOOK_SECRET e1) = Inr ev"
      and ty: "event_type ev = ''invoice.payment_succeeded''"
      and ok: "status (res (POST e1 d req)) = 200"
  proof -
    from POST_ok_dispatch [OF v ok] ty obtain out
      where "handleInvoicePaymentSucceeded e1 d (data_object ev) = Inr (?d1, out)"
      by (auto simp: dispatch_payment_succeeded)
    then have in1: "Some (obj_id (data_object ev)) \<in> set (map stripeInvoiceId (invoices ?d1))"
      by (rule payment_succeeded_records_id)
    with POST_invoice_ids_mono [of ?d1 e2 req2]
    have in2: "Some (obj_id (data_object ev)) \<in> set (map stripeInvoiceId (invoices ?d2))"
      by blast
    from u1 u2 have "unique_nonnull (map stripeInvoiceId (invoices ?d1))"
      and "unique_nonnull (map stripeInvoiceId (invoices ?d2))"
      by (simp_all add: unique_provider_ids_def)
    with in1 in2 show ?thesis
      by (simp add: unique_nonnull_count)
  qed
  from u1 u2 counts show ?thesis by blast
qed

theorem C2_one_row_witness:
  "length (filter (\<lambda>r. stripeInvoiceId r = Some ''in_123'')
      (invoices (store (POST (test_env payment_succeeded 1000 ''u1'') db_empty signed_request)))) = 1
   \<and> length (filter (\<lambda>r. stripeInvoiceId r = Some ''in_123'')
      (invoices (store (POST (test_env payment_succeeded 2000 ''u2'')
         (store (POST (test_env payment_succeeded 1000 ''u1'') db_empty signed_request))
         signed_request)))) = 1"
proof -
  have uniq: "unique_provider_ids db_empty"
    by (simp add: unique_provider_ids_def unique_nonnull_def db_empty_def)
  show ?thesis
    using C2_one_row_per_provider_id [OF uniq, of "test_env payment_succeeded 1000 ''u1''"
        signed_request "test_env payment_succeeded 2000 ''u2''" signed_request payment_succeeded]
    by (simp add: fixtures route_defs)
qed

text \<open>
  C6 as stated has the amount and the currency set on the conflict-update path as on the
  insert path. The \<^verbatim>\<open>set\<close> of \<^verbatim>\<open>onConflictDoUpdate\<close> lists the status and the two URLs
  only: after an event for \<^verbatim>\<open>in_123\<close> with 500 \<^verbatim>\<open>eur\<close>, an event for the same invoice with
  999 \<^verbatim>\<open>usd\<close> is acknowledged and the row still holds 500 \<^verbatim>\<open>eur\<close>.
\<close>

theorem C6_counterexample:
  "status (res (POST (test_env payment_succeeded_earlier 1000 ''u1'') db_empty signed_request)) = 200
   \<and> status (res (POST (test_env payment_succeeded 2000 ''u2'')
        (store (POST (test_env payment_succeeded_earlier 1000 ''u1'') db_empty signed_request))
        signed_request)) = 200
   \<and> amount_paid (data_object payment_succeeded) = 999
   \<and> obj_currency (data_object payment_succeeded) = ''usd''
   \<and> map amount (invoices (store (POST (test_env payment_succeeded 2000 ''u2'')
        (store (POST (test_env payment_succeeded_earlier 1000 ''u1'') db_empty signed_request))
        signed_request))) = [500]
   \<and> map currency (invoices (store (POST (test_env payment_succeeded 2000 ''u2'')
        (store (POST (test_env payment_succeeded_earlier 1000 ''u1'') db_empty signed_request))
        signed_request))) = [''eur'']"
  by (simp add: fixtures route_defs)

text \<open>
  C6, amended. For every verified \<^verbatim>\<open>invoice.payment_succeeded\<close> event acknowledged with 200:
  when no invoice row carries the payload's id, one row is appended with that
  \<^verbatim>\<open>stripeInvoiceId\<close>, status \<^verbatim>\<open>paid\<close>, the payload's \<^verbatim>\<open>amount_paid\<close>, currency and two
  URLs (the payload \<^verbatim>\<open>in_123\<close>, 999, \<^verbatim>\<open>usd\<close> gives the row \<^verbatim>\<open>in_123\<close>, 999, \<^verbatim>\<open>paid\<close>);
  when a row carries it, that row's status becomes \<^verbatim>\<open>paid\<close> and its two URLs the
  payload's, while its amount, its currency and every other column stay as they were.
\<close>

theorem C6_payment_succeeded_insert_or_update:
  assumes verified: "constructEvent e (body req) (stripe_signature req) (STRIPE_WEBHOOK_SECRET e) = Inr ev"
    and ty: "event_type ev = ''invoice.payment_succeeded''"
    and ok: "status (res (POST e d req)) = 200"
  shows "(Some (obj_id (data_object ev)) \<notin> set (map stripeInvoiceId (invoices d)) \<longrightarrow>
            store (POST e d req) =
              d\<lparr>invoices := invoices d @
                 [\<lparr>inv_id = randomUUID e,
                   inv_userId = customer (data_object ev),
                   subscriptionId = None,
                   stripeInvoiceId = Some (obj_id (data_object ev)),
                   amount = amount_paid (data_object ev),
                   currency = obj_currency (data_object ev),
                   inv_status = ''paid'',
                   hostedInvoiceUrl = hosted_invoice_url (data_object ev),
                   invoicePdf = invoice_pdf (data_object ev),
                   inv_createdAt = defaultNow e\<rparr>]\<rparr>)
       \<and> (Some (obj_id (data_object ev)) \<in> set (map stripeInvoiceId (invoices d)) \<longrightarrow>
            store (POST e d req) =
              d\<lparr>invoices :=
                 map (\<lambda>r. if stripeInvoiceId r = Some (obj_id (data_object ev))
                          then r\<lparr>inv_status := ''paid'',
                                 hostedInvoiceUrl := hosted_invoice_url (data_object ev),
                                 invoicePdf := invoice_pdf (data_object ev)\<rparr>
                          else r)
                     (invoices d)\<rparr>)"
proof -
  from POST_ok_dispatch [OF verified ok] ty obtain out
    where h: "handleInvoicePaymentSucceeded e d (data_object ev) = Inr (store (POST e d req), out)"
    by (auto simp: dispatch_payment_succeeded)
  show ?thesis
    using handleInvoicePaymentSucceeded_Inr(1,2) [OF h]
    by (simp add: update_where_def)
qed

theorem C6_payment_succeeded_witness:
  "invoices (store (POST (test_env payment_succeeded 1000 ''u1'') db_empty signed_request)) =
     [\<lparr>inv_id = ''u1'', inv_userId = ''cus_1'', subscriptionId = None,
       stripeInvoiceId = Some ''in_123'', amount = 999, currency = ''usd'',
       inv_status = ''paid'', hostedInvoiceUrl = Some ''https://x'',
       invoicePdf = Some ''https://y'', inv_createdAt = 1000\<rparr>]"
proof -
  let ?e = "test_env payment_succeeded 1000 ''u1''"
  have v: "constructEvent ?e (body signed_request) (stripe_signature signed_request)
             (STRIPE_WEBHOOK_SECRET ?e) = Inr payment_succeeded"
    by (simp add: test_env_def test_constructEvent_def signed_request_def)
  have ty: "event_type payment_succeeded = ''invoice.payment_succeeded''"
    by (simp add: payment_succeeded_def)
  have ok: "status (res (POST ?e db_empty signed_request)) = 200"
    by (simp add: fixtures route_defs)
  show ?thesis
    using C6_payment_succeeded_insert_or_update [OF v ty ok]
    by (simp add: fixtures)
qed

text \<open>
  C10. Whenever a verified \<^verbatim>\<open>invoice.payment_succeeded\<close> event inserts an invoice row (the
  table is one row longer after the request), the table is the old table followed by the new
  row, and the new row's \<^verbatim>\<open>userId\<close> is the payload's \<^verbatim>\<open>customer\<close>, verbatim: the handler
  reads no table to resolve it.
\<close>

theorem C10_inserted_invoice_userId_is_customer:
  assumes verified: "constructEvent e (body req) (stripe_signature req) (STRIPE_WEBHOOK_SECRET e) = Inr ev"
    and ty: "event_type ev = ''invoice.payment_succeeded''"
    and inserted: "length (invoices (store (POST e d req))) = Suc (length (invoices d))"
  shows "invoices (store (POST e d req)) = invoices d @ [last (invoices (store (POST e d req)))]
       \<and> inv_userId (last (invoices (store (POST e d req)))) = customer (data_object ev)"
proof -
  from inserted have "store (POST e d req) \<noteq> d" by auto
  with POST_store_cases [of e d req] verified ty obtain out
    where h: "handleInvoicePaymentSucceeded e d (data_object ev) = Inr (store (POST e d req), out)"
    by (auto simp: dispatch_payment_succeeded)
  have fresh: "Some (obj_id (data_object ev)) \<notin> set (map stripeInvoiceId (invoices d))"
  proof
    assume "Some (obj_id (data_object ev)) \<in> set (map stripeInvoiceId (invoices d))"
    from handleInvoicePaymentSucceeded_Inr(1) [OF h this]
    have "length (invoices (store (POST e d req))) = length (invoices d)"
      using arg_cong [of "store (POST e d req)" _ "\<lambda>x. length (invoices x)"]
      by (simp add: update_where_def)
    with inserted show False by simp
  qed
  from handleInvoicePaymentSucceeded_Inr(2) [OF h fresh]
  have "invoices (store (POST e d req)) = invoices d @
                   [\<lparr>inv_id = randomUUID e,
                     inv_userId = customer (data_object ev),
                     subscriptionId = None,
                     stripeInvoiceId = Some (obj_id (data_object ev)),
                     amount = amount_paid (data_object ev),
                     currency = obj_currency (data_object ev),
                     inv_status = ''paid'',
                     hostedInvoiceUrl = hosted_invoice_url (data_object ev),
                     invoicePdf = invoice_pdf (data_object ev),
                     inv_createdAt = defaultNow e\<rparr>]"
    using arg_cong [of "store (POST e d req)" _ invoices] by simp
  then show ?thesis by simp
qed

theorem C10_inserted_invoice_witness:
  "map inv_userId (invoices (store (POST (test_env payment_succeeded 1000 ''u1'') db_subscribed signed_request)))
     = [''cus_1'']
   \<and> customer (data_object payment_succeeded) = ''cus_1''"
proof -
  let ?e = "test_env payment_succeeded 1000 ''u1''"
  have v: "constructEvent ?e (body signed_request) (stripe_signature signed_request)
             (STRIPE_WEBHOOK_SECRET ?e) = Inr payment_succeeded"
    by (simp add: test_env_def test_constructEvent_def signed_request_def)
  have ty: "event_type payment_succeeded = ''invoice.payment_succeeded''"
    by (simp add: payment_succeeded_def)
  have ins: "length (invoices (store (POST ?e db_subscribed signed_request)))
               = Suc (length (invoices db_subscribed))"
    by (simp add: fixtures route_defs)
  show ?thesis
    using C10_inserted_invoice_userId_is_customer [OF v ty ins]
    by (simp add: fixtures route_defs)
qed

section \<open>Log-only events, unlisted types and handler errors\<close>

text \<open>
  C7. A verified \<^verbatim>\<open>invoice.payment_failed\<close> event is answered with 200 and
  \<^verbatim>\<open>{ received: true }\<close>; the handler writes one console line with the invoice id and the
  database, every table of it, is the one the request found, whatever the state of the
  database connection.
\<close>

theorem C7_payment_failed_is_log_only:
  assumes verified: "constructEvent e (body req) (stripe_signature req) (STRIPE_WEBHOOK_SECRET e) = Inr ev"
    and ty: "event_type ev = ''invoice.payment_failed''"
  shows "POST e d req =
           \<lparr>res = \<lparr>status = 200, json_body = Received True\<rparr>,
            store = d,
            console = [Console_log [Str ''Payment failed for invoice:'', Str (obj_id (data_object ev))]]\<rparr>"
  using ty by (simp add: POST_verified [OF verified] dispatch_def handleInvoicePaymentFailed_def)

theorem C7_payment_failed_witness:
  "POST (test_env payment_failed 1000 ''u1'') db_subscribed signed_request =
     \<lparr>res = \<lparr>status = 200, json_body = Received True\<rparr>,
      store = db_subscribed,
      console = [Console_log [Str ''Payment failed for invoice:'', Str ''in_123'']]\<rparr>"
proof -
  let ?e = "test_env payment_failed 1000 ''u1''"
  have v: "constructEvent ?e (body signed_request) (stripe_signature signed_request)
             (STRIPE_WEBHOOK_SECRET ?e) = Inr payment_failed"
    by (simp add: test_env_def test_constructEvent_def signed_request_def)
  have ty: "event_type payment_failed = ''invoice.payment_failed''"
    by (simp add: payment_failed_def)
  show ?thesis
    using C7_payment_failed_is_log_only [OF v ty, of db_subscribed]
    by (simp add: payment_failed_def in_123_def)
qed

text \<open>
  C8. A verified event whose type is none of the five that the \<^verbatim>\<open>switch\<close> lists is logged
  as unhandled, leaves the database as it was, and is answered with 200 and
  \<^verbatim>\<open>{ received: true }\<close>.
\<close>

theorem C8_unrecognized_type_acknowledged:
  assumes verified: "constructEvent e (body req) (stripe_signature req) (STRIPE_WEBHOOK_SECRET e) = Inr ev"
    and unregistered: "event_type ev \<notin>
        {''customer.subscription.created'', ''customer.subscription.updated'',
         ''customer.subscription.deleted'', ''invoice.payment_succeeded'',
         ''invoice.payment_failed''}"
  shows "POST e d req =
           \<lparr>res = \<lparr>status = 200, json_body = Received True\<rparr>,
            store = d,
            console = [Console_log [Str (''Unhandled event type: '' @ event_type ev)]]\<rparr>"
  using unregistered by (simp add: POST_verified [OF verified] dispatch_def)

theorem C8_unrecognized_type_witness:
  "POST (test_env checkout_completed 1000 ''u1'') db_subscribed signed_request =
     \<lparr>res = \<lparr>status = 200, json_body = Received True\<rparr>,
      store = db_subscribed,
      console = [Console_log [Str ''Unhandled event type: checkout.session.completed'']]\<rparr>"
proof -
  let ?e = "test_env checkout_completed 1000 ''u1''"
  have v: "constructEvent ?e (body signed_request) (stripe_signature signed_request)
             (STRIPE_WEBHOOK_SECRET ?e) = Inr checkout_completed"
    by (simp add: test_env_def test_constructEvent_def signed_request_def)
  have ty: "event_type checkout_completed \<notin>
        {''customer.subscription.created'', ''customer.subscription.updated'',
         ''customer.subscription.deleted'', ''invoice.payment_succeeded'',
         ''invoice.payment_failed''}"
    by (simp add: checkout_completed_def)
  show ?thesis
    using C8_unrecognized_type_acknowledged [OF v ty, of db_subscribed]
    by (simp add: checkout_completed_def)
qed

text \<open>
  C9. For a verified event of one of the five listed types, the response status is 500
  exactly when the handler raises; the error the handler raised is then the one logged by the
  route's \<^verbatim>\<open>catch\<close>, the body is the error object, and the database is the one the request
  found: the handler's single statement is not tried again. In particular a fault of the
  database connection during any of the four writing event types ends in 500.
\<close>

theorem C9_handler_error_is_500:
  assumes verified: "constructEvent e (body req) (stripe_signature req) (STRIPE_WEBHOOK_SECRET e) = Inr ev"
    and registered: "event_type ev \<in>
        {''customer.subscription.created'', ''customer.subscription.updated'',
         ''customer.subscription.deleted'', ''invoice.payment_succeeded'',
         ''invoice.payment_failed''}"
  shows "(status (res (POST e d req)) = 500) = isl (dispatch e d ev)
       \<and> (dispatch e d ev = Inl err \<longrightarrow>
            POST e d req =
              \<lparr>res = \<lparr>status = 500, json_body = Error_object ''Webhook handler failed''\<rparr>,
               store = d,
               console = [Console_error [Str ''Webhook handler error:'', Err err]]\<rparr>)
       \<and> (db_fault e = Some msg \<and> event_type ev \<noteq> ''invoice.payment_failed'' \<longrightarrow>
            status (res (POST e d req)) = 500)"
proof -
  have first: "(status (res (POST e d req)) = 500) = isl (dispatch e d ev)"
    by (simp add: POST_verified [OF verified] split: sum.splits)
  have second: "dispatch e d ev = Inl err \<longrightarrow>
            POST e d req =
              \<lparr>res = \<lparr>status = 500, json_body = Error_object ''Webhook handler failed''\<rparr>,
               store = d,
               console = [Console_error [Str ''Webhook handler error:'', Err err]]\<rparr>"
    by (simp add: POST_verified [OF verified])
  have third: "isl (dispatch e d ev)"
    if "db_fault e = Some msg" and "event_type ev \<noteq> ''invoice.payment_failed''"
    using that registered
    by (auto simp: dispatch_def handleSubscriptionUpdate_def handleSubscriptionDeleted_def
          handleInvoicePaymentSucceeded_def split: option.splits)
  from first second third show ?thesis by blast
qed

theorem C9_handler_error_witness:
  "POST ((test_env subscription_updated 1000 ''u1'')\<lparr>db_fault := Some ''Connection terminated unexpectedly''\<rparr>)
        db_subscribed signed_request =
     \<lparr>res = \<lparr>status = 500, json_body = Error_object ''Webhook handler failed''\<rparr>,
      store = db_subscribed,
      console = [Console_error [Str ''Webhook handler error:'',
                                Err (Database_fault ''Connection terminated unexpectedly'')]]\<rparr>"
proof -
  let ?e = "(test_env subscription_updated 1000 ''u1'')\<lparr>db_fault := Some ''Connection terminated unexpectedly''\<rparr>"
  have v: "constructEvent ?e (body signed_request) (stripe_signature signed_request)
             (STRIPE_WEBHOOK_SECRET ?e) = Inr subscription_updated"
    by (simp add: test_env_def test_constructEvent_def signed_request_def)
  have ty: "event_type subscription_updated \<in>
        {''customer.subscription.created'', ''customer.subscription.updated'',
         ''customer.subscription.deleted'', ''invoice.payment_succeeded'',
         ''invoice.payment_failed''}"
    by (simp add: subscription_updated_def)
  have raised: "dispatch ?e db_subscribed subscription_updated
                  = Inl (Database_fault ''Connection terminated unexpectedly'')"
    by (simp add: fixtures route_defs)
  show ?thesis
    using C9_handler_error_is_500 [OF v ty, of db_subscribed
        "Database_fault ''Connection terminated unexpectedly''" "''Connection terminated unexpectedly''"] raised
    by simp
qed

end
